theory Spec2Isabelle
  imports Complex_Main
begin

section \<open>JavaScript values, exceptions and the runtime\<close>

text \<open>
  Strings are lists of code units; a \<^typ>\<open>char\<close> stands for one code unit in the range
  0..255. Thrown values are values of \<open>exn\<close>; a computation that may throw returns
  \<open>exn + 'a\<close>, with \<open>Inl\<close> the thrown value.
\<close>

datatype exn =
    Error string
  | SyntaxError string
  | TypeError string
  | ZodError "string list"
  | JsonWebTokenError string
  | TokenExpiredError string
  | NotBeforeError string

text \<open>
  \<open>error.message\<close>. A ZodError's message is the JSON rendering of its list of issues,
  which opens with a bracket; the issues are abstracted to the paths of the offending keys.
\<close>

fun message :: "exn \<Rightarrow> string" where
  "message (Error m) = m"
| "message (SyntaxError m) = m"
| "message (TypeError m) = m"
| "message (ZodError issues) = ''['' @ concat issues @ '']''"
| "message (JsonWebTokenError m) = m"
| "message (TokenExpiredError m) = m"
| "message (NotBeforeError m) = m"

text \<open>\<open>try { body } catch (error) { handler }\<close> for code without other effects.\<close>

definition try_catch :: "(exn + 'a) \<Rightarrow> (exn \<Rightarrow> exn + 'a) \<Rightarrow> exn + 'a" where
  "try_catch body handler = (case body of Inl error \<Rightarrow> handler error | Inr v \<Rightarrow> Inr v)"

text \<open>\<open>a || b\<close> where \<open>a\<close> is a string or undefined: undefined and the empty string are falsy.\<close>

definition js_or :: "string option \<Rightarrow> string \<Rightarrow> string" where
  "js_or a b = (case a of None \<Rightarrow> b | Some s \<Rightarrow> if s = [] then b else s)"

text \<open>
  Numbers, and the values that JSON carries. A finite number is held as the rational it
  denotes.
\<close>

datatype js_number = NaN | PosInfinity | NegInfinity | Finite rat

datatype json =
    JNull
  | JBool bool
  | JNum js_number
  | JStr string
  | JArr "json list"
  | JObj "(string \<times> json) list"

record process_env =
  env_JWT_SECRET :: "string option"
  env_NODE_ENV :: "string option"

section \<open>The libraries the authentication module calls\<close>

text \<open>
  lib/auth.ts is a thin layer over jsonwebtoken and bcryptjs. Neither library is part of the
  repository, so both are parameters of the model: a record of the functions that the module
  calls. What a function reads from its environment is an explicit argument: the clock
  (\<open>Date.now()\<close>, in milliseconds) for the token functions, the random bytes drawn for the
  salt for \<open>bcrypt.hash\<close>.
\<close>

text \<open>
  The interface declares \<open>userId: number\<close>; the value stored in it is the \<open>id\<close> column of
  the user's row, which the documented schema makes a UUID string. Both shapes are kept.
\<close>

datatype user_id = NumId int | StrId string

record JWTPayload =
  userId :: user_id
  email :: string

text \<open>
  The object \<open>jwt.verify\<close> returns: the signed payload with the registered claims
  \<open>iat\<close> and \<open>exp\<close> (in seconds) that \<open>jwt.sign\<close> added. The cast \<open>as JWTPayload\<close>
  changes nothing at run time. (The tokens this module signs carry an object payload; a
  token whose payload is not an object is outside the model.)
\<close>

record JwtDecoded = JWTPayload +
  iat :: nat
  exp_at :: nat

record jwt_lib =
  jwt_sign :: "JWTPayload \<Rightarrow> string \<Rightarrow> string \<Rightarrow> nat \<Rightarrow> exn + string"
  jwt_verify :: "string \<Rightarrow> string \<Rightarrow> nat \<Rightarrow> exn + JwtDecoded"

record bcrypt_lib =
  bcrypt_hash :: "string \<Rightarrow> nat \<Rightarrow> string \<Rightarrow> string"
  bcrypt_compare :: "string \<Rightarrow> string \<Rightarrow> bool"

text \<open>
  The contract of jsonwebtoken that the claims rest on. Signing with a non-empty secret and
  \<open>expiresIn: '7d'\<close> at clock \<open>t0\<close> succeeds with a non-empty compact string; verifying
  that string under the same secret at clock \<open>t1\<close> returns the payload with
  \<open>iat = floor(t0 / 1000)\<close> and \<open>exp = iat + 604800\<close> as long as
  \<open>floor(t1 / 1000) < exp\<close>, and throws TokenExpiredError from then on.
\<close>

definition seven_days :: nat where
  "seven_days = 7 * 24 * 60 * 60"

definition decoded :: "JWTPayload \<Rightarrow> nat \<Rightarrow> JwtDecoded" where
  "decoded p t0 =
     \<lparr>userId = userId p, email = email p, iat = t0 div 1000, exp_at = t0 div 1000 + seven_days\<rparr>"

definition jwt_contract :: "jwt_lib \<Rightarrow> bool" where
  "jwt_contract J \<longleftrightarrow>
     (\<forall>p secret t0. secret \<noteq> [] \<longrightarrow>
        (\<exists>tok. jwt_sign J p secret ''7d'' t0 = Inr tok \<and> tok \<noteq> [] \<and>
           (\<forall>t1. jwt_verify J tok secret t1 =
                   (if t1 div 1000 < t0 div 1000 + seven_days
                    then Inr (decoded p t0)
                    else Inl (TokenExpiredError ''jwt expired'')))))"

text \<open>
  The contract of bcryptjs: a hash computed with a cost between 4 and 31, whatever salt was
  drawn, compares equal to the plaintext it was computed from.
\<close>

definition bcrypt_contract :: "bcrypt_lib \<Rightarrow> bool" where
  "bcrypt_contract B \<longleftrightarrow>
     (\<forall>password rounds salt. 4 \<le> rounds \<and> rounds \<le> 31 \<longrightarrow>
        bcrypt_compare B password (bcrypt_hash B password rounds salt))"

section \<open>lib/auth.ts\<close>

record auth_runtime =
  jwt :: jwt_lib
  bcrypt :: bcrypt_lib
  env :: process_env
  Date_now :: nat
  random_bytes :: string

definition fallback_secret :: string where
  "fallback_secret = ''your-super-secret-jwt-key-change-in-production''"

definition JWT_SECRET :: "process_env \<Rightarrow> string" where
  "JWT_SECRET E = js_or (env_JWT_SECRET E) fallback_secret"

definition hashPassword :: "('a auth_runtime_scheme) \<Rightarrow> string \<Rightarrow> string" where
  "hashPassword R password = bcrypt_hash (bcrypt R) password 10 (random_bytes R)"

definition verifyPassword :: "('a auth_runtime_scheme) \<Rightarrow> string \<Rightarrow> string \<Rightarrow> bool" where
  "verifyPassword R password hash = bcrypt_compare (bcrypt R) password hash"

definition generateToken :: "('a auth_runtime_scheme) \<Rightarrow> JWTPayload \<Rightarrow> exn + string" where
  "generateToken R payload = jwt_sign (jwt R) payload (JWT_SECRET (env R)) ''7d'' (Date_now R)"

definition verifyToken :: "('a auth_runtime_scheme) \<Rightarrow> string \<Rightarrow> exn + JwtDecoded option" where
  "verifyToken R token =
     try_catch
       (case jwt_verify (jwt R) token (JWT_SECRET (env R)) (Date_now R) of
          Inl thrown \<Rightarrow> Inl thrown
        | Inr d \<Rightarrow> Inr (Some d))
       (\<lambda>error. Inr None)"

text \<open>
  A request, as far as the handlers read it: the cookie jar (\<open>request.cookies.get(name)?.value\<close>),
  the query string (\<open>searchParams.get(name)\<close>) and the outcome of \<open>await request.json()\<close>.
\<close>

record request =
  cookies :: "string \<rightharpoonup> string"
  searchParams :: "string \<rightharpoonup> string"
  request_json :: "exn + json"

definition getCurrentUser :: "('a auth_runtime_scheme) \<Rightarrow> request \<Rightarrow> exn + JwtDecoded option" where
  "getCurrentUser R request =
     (case cookies request ''token'' of
        None \<Rightarrow> Inr None
      | Some token \<Rightarrow> if token = [] then Inr None else verifyToken R token)"

definition requireAuth :: "('a auth_runtime_scheme) \<Rightarrow> request \<Rightarrow> exn + JwtDecoded" where
  "requireAuth R request =
     (case getCurrentUser R request of
        Inl thrown \<Rightarrow> Inl thrown
      | Inr None \<Rightarrow> Inl (Error ''Unauthorized'')
      | Inr (Some user) \<Rightarrow> Inr user)"

section \<open>The libraries inside a running process\<close>

text \<open>
  A JavaScript function is not a function of its arguments alone: while it runs, a library
  call can draw on the random source of the process. \<open>node_libs\<close> gives every library
  call, as its first argument, the bytes that the source yields during the call; whether a
  call reads them is a property of the library, not of its type. \<open>during_call\<close> is the
  runtime that one call of an operation of lib/auth.ts sees: the libraries at the bytes
  drawn, the environment and the clock. \<open>bcrypt.hash\<close> takes its salt from the bytes drawn.
\<close>

record node_libs =
  sign_call :: "string \<Rightarrow> JWTPayload \<Rightarrow> string \<Rightarrow> string \<Rightarrow> nat \<Rightarrow> exn + string"
  verify_call :: "string \<Rightarrow> string \<Rightarrow> string \<Rightarrow> nat \<Rightarrow> exn + JwtDecoded"
  hash_call :: "string \<Rightarrow> string \<Rightarrow> nat \<Rightarrow> string"
  compare_call :: "string \<Rightarrow> string \<Rightarrow> string \<Rightarrow> bool"

definition during_call :: "node_libs \<Rightarrow> process_env \<Rightarrow> nat \<Rightarrow> string \<Rightarrow> auth_runtime" where
  "during_call N E now drawn =
     \<lparr>jwt = \<lparr>jwt_sign = sign_call N drawn, jwt_verify = verify_call N drawn\<rparr>,
      bcrypt = \<lparr>bcrypt_hash = (\<lambda>password rounds salt. hash_call N salt password rounds),
                bcrypt_compare = compare_call N drawn\<rparr>,
      env = E, Date_now = now, random_bytes = drawn\<rparr>"

text \<open>
  What makes the calls other than \<open>bcrypt.hash\<close> repeatable: \<open>jwt.sign\<close> (HS256),
  \<open>jwt.verify\<close> and \<open>bcrypt.compare\<close> return the same result whatever the random source
  yields.
\<close>

definition deterministic_calls :: "node_libs \<Rightarrow> bool" where
  "deterministic_calls N \<longleftrightarrow>
     (\<forall>d1 d2. sign_call N d1 = sign_call N d2
            \<and> verify_call N d1 = verify_call N d2
            \<and> compare_call N d1 = compare_call N d2)"

section \<open>\<open>Number(string)\<close>\<close>

text \<open>
  The conversion the by-id routes apply to the path parameter, after ECMAScript's
  StringToNumber: white space is trimmed from both ends; the empty string converts to 0; a
  string that is neither a \<open>0x\<close>/\<open>0o\<close>/\<open>0b\<close> integer literal nor an optionally signed
  decimal literal (or \<open>Infinity\<close>) converts to NaN. A finite result is the mathematical value
  of the literal; its rounding to a double is not modelled.
\<close>

definition is_ws :: "char \<Rightarrow> bool" where
  "is_ws c \<longleftrightarrow> (of_char c :: nat) \<in> set [9, 10, 11, 12, 13, 32, 160]"

definition trim :: "string \<Rightarrow> string" where
  "trim s = rev (dropWhile is_ws (rev (dropWhile is_ws s)))"

definition is_digit :: "char \<Rightarrow> bool" where
  "is_digit c \<longleftrightarrow> 48 \<le> (of_char c :: nat) \<and> (of_char c :: nat) \<le> 57"

definition is_hex :: "char \<Rightarrow> bool" where
  "is_hex c \<longleftrightarrow> is_digit c
     \<or> (65 \<le> (of_char c :: nat) \<and> (of_char c :: nat) \<le> 70)
     \<or> (97 \<le> (of_char c :: nat) \<and> (of_char c :: nat) \<le> 102)"

definition digit_value :: "char \<Rightarrow> nat" where
  "digit_value c =
     (let n = of_char c in
      if 97 \<le> n then n - 87 else if 65 \<le> n then n - 55 else n - 48)"

definition radix_value :: "nat \<Rightarrow> string \<Rightarrow> nat" where
  "radix_value b ds = foldl (\<lambda>acc c. b * acc + digit_value c) 0 ds"

definition radix_literal :: "nat \<Rightarrow> string \<Rightarrow> js_number" where
  "radix_literal b ds =
     (if ds \<noteq> [] \<and> list_all (\<lambda>c. is_hex c \<and> digit_value c < b) ds
      then Finite (of_nat (radix_value b ds)) else NaN)"

text \<open>The signed integer of an exponent part: an optional sign, then one or more digits.\<close>

definition signed_integer :: "string \<Rightarrow> int option" where
  "signed_integer s =
     (let (negative, ds) =
        (case s of
           [] \<Rightarrow> (False, [])
         | c # r \<Rightarrow> if c = CHR ''+'' then (False, r)
                    else if c = CHR ''-'' then (True, r) else (False, s))
      in if ds \<noteq> [] \<and> list_all is_digit ds
         then Some (if negative then - int (radix_value 10 ds) else int (radix_value 10 ds))
         else None)"

definition scale10 :: "rat \<Rightarrow> int \<Rightarrow> rat" where
  "scale10 m e = (if 0 \<le> e then m * 10 ^ nat e else m / 10 ^ nat (- e))"

text \<open>
  StrUnsignedDecimalLiteral without \<open>Infinity\<close>: digits, an optional point with digits
  (at least one digit on either side of the point), an optional exponent part.
\<close>

definition unsigned_decimal :: "string \<Rightarrow> rat option" where
  "unsigned_decimal s =
     (let ip = takeWhile is_digit s;
          r1 = dropWhile is_digit s;
          (fp, r2) =
            (case r1 of
               [] \<Rightarrow> ([], [])
             | c # r \<Rightarrow> if c = CHR ''.'' then (takeWhile is_digit r, dropWhile is_digit r)
                        else ([], r1));
          mantissa = of_nat (radix_value 10 ip) + of_nat (radix_value 10 fp) / 10 ^ length fp
      in if ip = [] \<and> fp = [] then None
         else (case r2 of
                 [] \<Rightarrow> Some mantissa
               | c # r \<Rightarrow>
                   if c = CHR ''e'' \<or> c = CHR ''E''
                   then map_option (scale10 mantissa) (signed_integer r)
                   else None))"

definition Number :: "string \<Rightarrow> js_number" where
  "Number str =
     (let s = trim str in
      if s = [] then Finite 0
      else if take 2 s = ''0x'' \<or> take 2 s = ''0X'' then radix_literal 16 (drop 2 s)
      else if take 2 s = ''0o'' \<or> take 2 s = ''0O'' then radix_literal 8 (drop 2 s)
      else if take 2 s = ''0b'' \<or> take 2 s = ''0B'' then radix_literal 2 (drop 2 s)
      else
        (let (negative, u) =
           (case s of
              [] \<Rightarrow> (False, [])
            | c # r \<Rightarrow> if c = CHR ''+'' then (False, r)
                       else if c = CHR ''-'' then (True, r) else (False, s))
         in if u = ''Infinity'' then (if negative then NegInfinity else PosInfinity)
            else (case unsigned_decimal u of
                    None \<Rightarrow> NaN
                  | Some r \<Rightarrow> Finite (if negative then - r else r))))"

definition isNaN :: "js_number \<Rightarrow> bool" where
  "isNaN n \<longleftrightarrow> n = NaN"

text \<open>
  The textual form of the \<open>id\<close> column as the documented schema generates it
  (\<open>uuid_generate_v4()\<close>): 36 characters, hexadecimal digits in groups of 8, 4, 4, 4 and 12
  separated by hyphens.
\<close>

definition is_uuid :: "string \<Rightarrow> bool" where
  "is_uuid s \<longleftrightarrow> length s = 36 \<and>
     list_all (\<lambda>i. if i \<in> set [8, 13, 18, 23] then s ! i = CHR ''-'' else is_hex (s ! i)) [0..<36]"

section \<open>Request bodies and their zod schemas\<close>

text \<open>\<open>JSON.parse\<close> keeps the last of several members with one key.\<close>

definition member :: "(string \<times> json) list \<Rightarrow> string \<Rightarrow> json option" where
  "member kvs k = map_of (rev kvs) k"

definition z_string :: "json \<Rightarrow> string option" where
  "z_string v = (case v of JStr s \<Rightarrow> Some s | _ \<Rightarrow> None)"

definition z_string_min :: "nat \<Rightarrow> json \<Rightarrow> string option" where
  "z_string_min n v = (case v of JStr s \<Rightarrow> if n \<le> length s then Some s else None | _ \<Rightarrow> None)"

definition z_enum :: "string list \<Rightarrow> json \<Rightarrow> string option" where
  "z_enum allowed v = (case v of JStr s \<Rightarrow> if s \<in> set allowed then Some s else None | _ \<Rightarrow> None)"

text \<open>The regular expression \<open>/^\d{4}-\d{2}-\d{2}$/\<close>.\<close>

definition matches_iso_date :: "string \<Rightarrow> bool" where
  "matches_iso_date s \<longleftrightarrow> length s = 10 \<and>
     list_all (\<lambda>i. if i \<in> set [4, 7] then s ! i = CHR ''-'' else is_digit (s ! i)) [0..<10]"

definition z_string_regex :: "(string \<Rightarrow> bool) \<Rightarrow> json \<Rightarrow> string option" where
  "z_string_regex re v = (case v of JStr s \<Rightarrow> if re s then Some s else None | _ \<Rightarrow> None)"

definition z_number_positive :: "json \<Rightarrow> js_number option" where
  "z_number_positive v =
     (case v of
        JNum (Finite r) \<Rightarrow> if 0 < r then Some (Finite r) else None
      | JNum PosInfinity \<Rightarrow> Some PosInfinity
      | _ \<Rightarrow> None)"

text \<open>
  One key of a \<open>z.object\<close>: the issues it raises (its path, when the value is rejected) and
  the parsed value. An \<open>.optional()\<close> key may be absent.
\<close>

definition z_optional :: "(json \<Rightarrow> 'a option) \<Rightarrow> (string \<times> json) list \<Rightarrow> string \<Rightarrow> string list \<times> 'a option" where
  "z_optional check kvs k =
     (case member kvs k of
        None \<Rightarrow> ([], None)
      | Some v \<Rightarrow> (case check v of None \<Rightarrow> ([k], None) | Some x \<Rightarrow> ([], Some x)))"

definition z_required :: "(json \<Rightarrow> 'a option) \<Rightarrow> (string \<times> json) list \<Rightarrow> string \<Rightarrow> string list \<times> 'a option" where
  "z_required check kvs k =
     (case member kvs k of
        None \<Rightarrow> ([k], None)
      | Some v \<Rightarrow> (case check v of None \<Rightarrow> ([k], None) | Some x \<Rightarrow> ([], Some x)))"

record project_data =
  title :: "string option"
  status :: "string option"
  deadline :: "string option"
  assigned_to :: "string option"
  budget :: "js_number option"
  description :: "string option"

definition projectSchema_parse :: "json \<Rightarrow> exn + project_data" where
  "projectSchema_parse body =
     (case body of
        JObj kvs \<Rightarrow>
          (let (i1, t) = z_optional (z_string_min 1) kvs ''title'';
               (i2, s) = z_optional (z_enum [''active'', ''on hold'', ''completed'']) kvs ''status'';
               (i3, d) = z_optional (z_string_regex matches_iso_date) kvs ''deadline'';
               (i4, a) = z_optional (z_string_min 1) kvs ''assigned_to'';
               (i5, b) = z_optional z_number_positive kvs ''budget'';
               (i6, e) = z_optional z_string kvs ''description'';
               issues = i1 @ i2 @ i3 @ i4 @ i5 @ i6
           in if issues = []
              then Inr \<lparr>title = t, status = s, deadline = d, assigned_to = a, budget = b,
                        description = e\<rparr>
              else Inl (ZodError issues))
      | _ \<Rightarrow> Inl (ZodError [[]]))"

text \<open>\<open>z.string().email()\<close> tests zod's own pattern, a parameter of the model.\<close>

definition loginSchema_parse :: "(string \<Rightarrow> bool) \<Rightarrow> json \<Rightarrow> exn + string \<times> string" where
  "loginSchema_parse is_email body =
     (case body of
        JObj kvs \<Rightarrow>
          (let (i1, e) = z_required (z_string_regex is_email) kvs ''email'';
               (i2, p) = z_required (z_string_min 1) kvs ''password'';
               issues = i1 @ i2
           in (case (e, p) of
                 (Some em, Some pw) \<Rightarrow>
                   if issues = [] then Inr (em, pw) else Inl (ZodError issues)
               | _ \<Rightarrow> Inl (ZodError issues)))
      | _ \<Rightarrow> Inl (ZodError [[]]))"

section \<open>The datastore\<close>

text \<open>
  The Supabase client is the other collaborator outside the repository. Every query answers
  with \<open>{ data, error }\<close>; the datastore is a record of the answers it gives to the queries
  the handlers build. Each query a handler awaits is recorded in the trace of the run.
\<close>

record db_error =
  code :: string

record 'a db_result =
  data :: "'a option"
  error :: "db_error option"

datatype db_decimal = DecNull | DecString string | DecNumber js_number

record project_row =
  row_id :: json
  row_title :: json
  row_status :: json
  row_deadline :: json
  row_assigned_to :: json
  row_budget :: db_decimal
  row_description :: json
  row_created_at :: json
  row_updated_at :: json

record user_row =
  user_id :: user_id
  user_email :: string
  user_name :: json
  password_hash :: string

record project_insert =
  ins_title :: "string option"
  ins_status :: "string option"
  ins_deadline :: "string option"
  ins_assigned_to :: "string option"
  ins_budget :: "js_number option"
  ins_description :: "string option"

datatype db_query =
    SelectProjects "string option" "string option"
  | SelectProjectById js_number
  | InsertProject project_insert
  | UpdateProject js_number project_data
  | DeleteProject js_number
  | SelectUserByEmail string

record datastore =
  select_projects :: "string option \<Rightarrow> string option \<Rightarrow> project_row list db_result"
  select_project_by_id :: "js_number \<Rightarrow> project_row db_result"
  insert_project :: "project_insert \<Rightarrow> project_row db_result"
  update_project :: "js_number \<Rightarrow> project_data \<Rightarrow> project_row db_result"
  delete_project :: "js_number \<Rightarrow> json db_result"
  select_user_by_email :: "string \<Rightarrow> user_row db_result"

record server = auth_runtime +
  supabase :: datastore
  z_email :: "string \<Rightarrow> bool"

section \<open>Handlers: effects and responses\<close>

text \<open>
  A handler run yields what it returns or throws, together with the trace of what it did, in
  program order: the call of the authorization gate with its verdict, the datastore queries,
  the lines written to the server's error log.
\<close>

datatype event = Gate bool | Db db_query | ConsoleError string

type_synonym 'a eff = "(exn + 'a) \<times> event list"

definition ret :: "'a \<Rightarrow> 'a eff" where
  "ret v = (Inr v, [])"

definition throw :: "exn \<Rightarrow> 'a eff" where
  "throw e = (Inl e, [])"

definition pure_call :: "exn + 'a \<Rightarrow> 'a eff" where
  "pure_call r = (r, [])"

definition await :: "'a eff \<Rightarrow> ('a \<Rightarrow> 'b eff) \<Rightarrow> 'b eff" where
  "await m k =
     (case m of
        (Inl e, tr) \<Rightarrow> (Inl e, tr)
      | (Inr v, tr) \<Rightarrow> (case k v of (r, tr') \<Rightarrow> (r, tr @ tr')))"

definition try_catch_eff :: "'a eff \<Rightarrow> (exn \<Rightarrow> 'a eff) \<Rightarrow> 'a eff" where
  "try_catch_eff body handler =
     (case body of
        (Inl e, tr) \<Rightarrow> (case handler e of (r, tr') \<Rightarrow> (r, tr @ tr'))
      | (Inr v, tr) \<Rightarrow> (Inr v, tr))"

definition console_error :: "string \<Rightarrow> unit eff" where
  "console_error label = (Inr (), [ConsoleError label])"

definition query :: "db_query \<Rightarrow> 'a \<Rightarrow> 'a eff" where
  "query q answer = (Inr answer, [Db q])"

text \<open>\<open>await requireAuth(request)\<close> as a step of a handler.\<close>

definition await_requireAuth :: "('a auth_runtime_scheme) \<Rightarrow> request \<Rightarrow> JwtDecoded eff" where
  "await_requireAuth R request =
     (case requireAuth R request of
        Inl thrown \<Rightarrow> (Inl thrown, [Gate False])
      | Inr user \<Rightarrow> (Inr user, [Gate True]))"

record cookie_options =
  httpOnly :: bool
  secure :: bool
  sameSite :: string
  maxAge :: nat

record response =
  http_status :: nat
  body :: json
  set_cookies :: "(string \<times> string \<times> cookie_options) list"

definition NextResponse_json :: "json \<Rightarrow> nat \<Rightarrow> response" where
  "NextResponse_json b st = \<lparr>http_status = st, body = b, set_cookies = []\<rparr>"

definition error_body :: "string \<Rightarrow> json" where
  "error_body msg = JObj [(''error'', JStr msg)]"

definition invalid_input :: "string list \<Rightarrow> response" where
  "invalid_input issues =
     NextResponse_json
       (JObj [(''error'', JStr ''Invalid input''), (''details'', JArr (map JStr issues))]) 400"

definition Number_decimal :: "db_decimal \<Rightarrow> js_number" where
  "Number_decimal v =
     (case v of DecNull \<Rightarrow> Finite 0 | DecString s \<Rightarrow> Number s | DecNumber n \<Rightarrow> n)"

definition formatProject :: "project_row \<Rightarrow> json" where
  "formatProject project =
     JObj [(''id'', row_id project),
           (''title'', row_title project),
           (''status'', row_status project),
           (''deadline'', row_deadline project),
           (''assigned_to'', row_assigned_to project),
           (''budget'', JNum (Number_decimal (row_budget project))),
           (''description'', row_description project),
           (''created_at'', row_created_at project),
           (''updated_at'', row_updated_at project)]"

text \<open>Reading a property of \<open>null\<close> throws a TypeError.\<close>

definition deref :: "'a option \<Rightarrow> 'a eff" where
  "deref v = (case v of None \<Rightarrow> throw (TypeError ''Cannot read properties of null'') | Some x \<Rightarrow> ret x)"

definition truthy :: "string option \<Rightarrow> string option" where
  "truthy v = (case v of None \<Rightarrow> None | Some s \<Rightarrow> if s = [] then None else Some s)"

definition internal_server_error :: response where
  "internal_server_error = NextResponse_json (error_body ''Internal server error'') 500"

definition unauthorized :: response where
  "unauthorized = NextResponse_json (error_body ''Unauthorized'') 401"

section \<open>app/api/projects/route.ts\<close>

definition GET_projects :: "('a server_scheme) \<Rightarrow> request \<Rightarrow> response eff" where
  "GET_projects S request =
     try_catch_eff
       (await (await_requireAuth S request) (\<lambda>_.
        let st = truthy (searchParams request ''status'');
            search = truthy (searchParams request ''search'')
        in await (query (SelectProjects st search) (select_projects (supabase S) st search)) (\<lambda>res.
           case error res of
             Some err \<Rightarrow>
               await (console_error ''Supabase GET projects error:'') (\<lambda>_.
                 ret internal_server_error)
           | None \<Rightarrow>
               await (deref (data res)) (\<lambda>projects.
                 ret (NextResponse_json (JArr (map formatProject projects)) 200)))))
       (\<lambda>thrown.
          if message thrown = ''Unauthorized'' then ret unauthorized
          else await (console_error ''Error fetching projects:'') (\<lambda>_.
                 ret internal_server_error))"

definition POST_projects :: "('a server_scheme) \<Rightarrow> request \<Rightarrow> response eff" where
  "POST_projects S request =
     try_catch_eff
       (await (await_requireAuth S request) (\<lambda>_.
        await (pure_call (request_json request)) (\<lambda>b.
        await (pure_call (projectSchema_parse b)) (\<lambda>d.
        let row = \<lparr>ins_title = title d, ins_status = status d, ins_deadline = deadline d,
                   ins_assigned_to = assigned_to d, ins_budget = budget d,
                   ins_description = truthy (description d)\<rparr>
        in await (query (InsertProject row) (insert_project (supabase S) row)) (\<lambda>res.
           case error res of
             Some err \<Rightarrow>
               await (console_error ''Supabase CREATE project error:'') (\<lambda>_.
                 ret internal_server_error)
           | None \<Rightarrow>
               await (deref (data res)) (\<lambda>project.
                 ret (NextResponse_json (formatProject project) 201)))))))
       (\<lambda>thrown.
          if message thrown = ''Unauthorized'' then ret unauthorized
          else (case thrown of
                  ZodError issues \<Rightarrow> ret (invalid_input issues)
                | _ \<Rightarrow> await (console_error ''Error creating project:'') (\<lambda>_.
                         ret internal_server_error)))"

section \<open>app/api/projects/[id]/route.ts\<close>

definition invalid_project_id :: response where
  "invalid_project_id = NextResponse_json (error_body ''Invalid project id'') 400"

definition project_not_found :: response where
  "project_not_found = NextResponse_json (error_body ''Project not found'') 404"

definition GET_project :: "('a server_scheme) \<Rightarrow> request \<Rightarrow> string \<Rightarrow> response eff" where
  "GET_project S request params_id =
     try_catch_eff
       (await (await_requireAuth S request) (\<lambda>_.
        let n = Number params_id
        in if isNaN n then ret invalid_project_id
           else await (query (SelectProjectById n) (select_project_by_id (supabase S) n)) (\<lambda>res.
             case error res of
               Some err \<Rightarrow>
                 if code err = ''PGRST116'' then ret project_not_found
                 else await (console_error ''Supabase GET project error:'') (\<lambda>_.
                        ret internal_server_error)
             | None \<Rightarrow>
                 await (deref (data res)) (\<lambda>project.
                   ret (NextResponse_json (formatProject project) 200)))))
       (\<lambda>thrown.
          if message thrown = ''Unauthorized'' then ret unauthorized
          else await (console_error ''Error fetching project:'') (\<lambda>_.
                 ret internal_server_error))"

text \<open>\<open>updateData\<close> holds exactly the keys that are defined in the parsed body.\<close>

definition no_fields :: "project_data \<Rightarrow> bool" where
  "no_fields d \<longleftrightarrow> title d = None \<and> status d = None \<and> deadline d = None
     \<and> assigned_to d = None \<and> budget d = None \<and> description d = None"

definition PUT_project :: "('a server_scheme) \<Rightarrow> request \<Rightarrow> string \<Rightarrow> response eff" where
  "PUT_project S request params_id =
     try_catch_eff
       (await (await_requireAuth S request) (\<lambda>_.
        let n = Number params_id
        in if isNaN n then ret invalid_project_id
           else
             await (pure_call (request_json request)) (\<lambda>b.
             await (pure_call (projectSchema_parse b)) (\<lambda>updateData.
             if no_fields updateData
             then ret (NextResponse_json (error_body ''No fields to update'') 400)
             else await (query (UpdateProject n updateData)
                           (update_project (supabase S) n updateData)) (\<lambda>res.
               case error res of
                 Some err \<Rightarrow>
                   if code err = ''PGRST116'' then ret project_not_found
                   else await (console_error ''Supabase UPDATE project error:'') (\<lambda>_.
                          ret internal_server_error)
               | None \<Rightarrow>
                   await (deref (data res)) (\<lambda>project.
                     ret (NextResponse_json (formatProject project) 200)))))))
       (\<lambda>thrown.
          if message thrown = ''Unauthorized'' then ret unauthorized
          else (case thrown of
                  ZodError issues \<Rightarrow> ret (invalid_input issues)
                | _ \<Rightarrow> await (console_error ''Error updating project:'') (\<lambda>_.
                         ret internal_server_error)))"

definition DELETE_project :: "('a server_scheme) \<Rightarrow> request \<Rightarrow> string \<Rightarrow> response eff" where
  "DELETE_project S request params_id =
     try_catch_eff
       (await (await_requireAuth S request) (\<lambda>_.
        let n = Number params_id
        in if isNaN n then ret invalid_project_id
           else await (query (DeleteProject n) (delete_project (supabase S) n)) (\<lambda>res.
             case error res of
               Some err \<Rightarrow>
                 await (console_error ''Supabase DELETE project error:'') (\<lambda>_.
                   ret internal_server_error)
             | None \<Rightarrow>
                 (case data res of
                    None \<Rightarrow> ret project_not_found
                  | Some deleted \<Rightarrow>
                      ret (NextResponse_json
                             (JObj [(''message'', JStr ''Project deleted successfully'')]) 200)))))
       (\<lambda>thrown.
          if message thrown = ''Unauthorized'' then ret unauthorized
          else await (console_error ''Error deleting project:'') (\<lambda>_.
                 ret internal_server_error))"

section \<open>app/api/auth/me/route.ts\<close>

definition id_json :: "user_id \<Rightarrow> json" where
  "id_json i = (case i of NumId n \<Rightarrow> JNum (Finite (of_int n)) | StrId s \<Rightarrow> JStr s)"

definition user_json :: "JwtDecoded \<Rightarrow> json" where
  "user_json u =
     JObj [(''userId'', id_json (userId u)),
           (''email'', JStr (email u)),
           (''iat'', JNum (Finite (of_nat (iat u)))),
           (''exp'', JNum (Finite (of_nat (exp_at u))))]"

definition GET_me :: "('a server_scheme) \<Rightarrow> request \<Rightarrow> response eff" where
  "GET_me S request =
     try_catch_eff
       (await (pure_call (getCurrentUser S request)) (\<lambda>user.
          case user of
            None \<Rightarrow> ret unauthorized
          | Some u \<Rightarrow> ret (NextResponse_json (JObj [(''user'', user_json u)]) 200)))
       (\<lambda>thrown. ret unauthorized)"

section \<open>app/api/auth/login/route.ts\<close>

definition invalid_credentials :: response where
  "invalid_credentials = NextResponse_json (error_body ''Invalid credentials'') 401"

definition POST_login :: "('a server_scheme) \<Rightarrow> request \<Rightarrow> response eff" where
  "POST_login S request =
     try_catch_eff
       (await (pure_call (request_json request)) (\<lambda>b.
        await (pure_call (loginSchema_parse (z_email S) b)) (\<lambda>(em, password).
        await (query (SelectUserByEmail em) (select_user_by_email (supabase S) em)) (\<lambda>res.
          if error res \<noteq> None \<or> data res = None
          then await (if error res \<noteq> None then console_error ''Supabase error:'' else ret ()) (\<lambda>_.
                 ret invalid_credentials)
          else
            await (deref (data res)) (\<lambda>user.
            let isValid = verifyPassword S password (password_hash user)
            in if \<not> isValid then ret invalid_credentials
               else
                 await (pure_call (generateToken S
                          \<lparr>userId = user_id user, email = user_email user\<rparr>)) (\<lambda>token.
                 ret \<lparr>http_status = 200,
                      body = JObj [(''user'', JObj [(''id'', id_json (user_id user)),
                                                    (''email'', JStr (user_email user)),
                                                    (''name'', user_name user)]),
                                   (''token'', JStr token)],
                      set_cookies =
                        [(''token'', token,
                          \<lparr>httpOnly = True,
                           secure = (env_NODE_ENV (env S) = Some ''production''),
                           sameSite = ''lax'',
                           maxAge = 60 * 60 * 24 * 7\<rparr>)]\<rparr>))))))
       (\<lambda>thrown.
          case thrown of
            ZodError issues \<Rightarrow> ret (invalid_input issues)
          | _ \<Rightarrow> await (console_error ''Login error:'') (\<lambda>_. ret internal_server_error))"

section \<open>Reading a trace\<close>

definition db_queries :: "event list \<Rightarrow> db_query list" where
  "db_queries tr = concat (map (\<lambda>ev. case ev of Db q \<Rightarrow> [q] | _ \<Rightarrow> []) tr)"

text \<open>
  \<open>gated passed tr\<close>: every datastore query of the trace comes after a gate call that
  succeeded (\<open>passed\<close> tells whether one has been seen already).
\<close>

fun gated :: "bool \<Rightarrow> event list \<Rightarrow> bool" where
  "gated passed [] = True"
| "gated passed (Gate ok # tr) = gated (passed \<or> ok) tr"
| "gated passed (Db q # tr) = (passed \<and> gated passed tr)"
| "gated passed (ConsoleError l # tr) = gated passed tr"

text \<open>What the client sees of a run: the status line and the body of the response.\<close>

definition client_view :: "response eff \<Rightarrow> (nat \<times> json) option" where
  "client_view run = (case fst run of Inl thrown \<Rightarrow> None | Inr r \<Rightarrow> Some (http_status r, body r))"

section \<open>Outcomes of a login attempt\<close>

text \<open>
  The two failed attempts that the login route must not let a client tell apart. Both
  carry a body that passes \<open>loginSchema\<close>. In the first the datastore has no row for the
  email; in the second it has one, and the password does not verify against its hash.
\<close>

definition parsed_login :: "('a server_scheme) \<Rightarrow> request \<Rightarrow> (string \<times> string) option" where
  "parsed_login S request =
     (case request_json request of
        Inl thrown \<Rightarrow> None
      | Inr b \<Rightarrow> (case loginSchema_parse (z_email S) b of Inl thrown \<Rightarrow> None | Inr c \<Rightarrow> Some c))"

definition unknown_email :: "('a server_scheme) \<Rightarrow> request \<Rightarrow> bool" where
  "unknown_email S request =
     (case parsed_login S request of
        None \<Rightarrow> False
      | Some (em, pw) \<Rightarrow> data (select_user_by_email (supabase S) em) = None)"

definition wrong_password :: "('a server_scheme) \<Rightarrow> request \<Rightarrow> bool" where
  "wrong_password S request =
     (case parsed_login S request of
        None \<Rightarrow> False
      | Some (em, pw) \<Rightarrow>
          (case data (select_user_by_email (supabase S) em) of
             None \<Rightarrow> False
           | Some user \<Rightarrow> \<not> verifyPassword S pw (password_hash user)))"

section \<open>A reference interpretation of the libraries\<close>

text \<open>
  One interpretation of the two library interfaces, used to instantiate the statements below
  at concrete inputs. It keeps the shape of the real strings (a token carries the payload,
  the issue time and a part that depends on the secret; a hash carries the algorithm
  identifier, the cost, the salt and a part that depends on the plaintext) and none of their
  cryptography: fields are written one after another, each character of a string field
  prefixed by \<open>c\<close> and the field closed by a dot, numbers in unary.
\<close>

fun enc_str :: "string \<Rightarrow> string" where
  "enc_str [] = ''.''"
| "enc_str (c # cs) = CHR ''c'' # c # enc_str cs"

fun dec_str :: "string \<Rightarrow> (string \<times> string) option" where
  "dec_str [] = None"
| "dec_str [x] = (if x = CHR ''.'' then Some ([], []) else None)"
| "dec_str (x # c # r) =
     (if x = CHR ''.'' then Some ([], c # r)
      else if x = CHR ''c''
           then (case dec_str r of None \<Rightarrow> None | Some (s, rest) \<Rightarrow> Some (c # s, rest))
           else None)"

definition enc_nat :: "nat \<Rightarrow> string" where
  "enc_nat n = replicate n (CHR ''i'') @ ''.''"

definition dec_nat :: "string \<Rightarrow> (nat \<times> string) option" where
  "dec_nat s =
     (case dropWhile (\<lambda>c. c = CHR ''i'') s of
        [] \<Rightarrow> None
      | c # rest \<Rightarrow> if c = CHR ''.'' then Some (length (takeWhile (\<lambda>c. c = CHR ''i'') s), rest)
                    else None)"

definition enc_id :: "user_id \<Rightarrow> string" where
  "enc_id i =
     (case i of
        NumId n \<Rightarrow> (if n < 0 then ''-'' else ''+'') @ enc_nat (nat \<bar>n\<bar>)
      | StrId s \<Rightarrow> ''s'' @ enc_str s)"

definition dec_id :: "string \<Rightarrow> (user_id \<times> string) option" where
  "dec_id s =
     (case s of
        [] \<Rightarrow> None
      | c # r \<Rightarrow>
          if c = CHR ''s'' then map_option (\<lambda>(x, rest). (StrId x, rest)) (dec_str r)
          else if c = CHR ''+'' then map_option (\<lambda>(n, rest). (NumId (int n), rest)) (dec_nat r)
          else if c = CHR ''-'' then map_option (\<lambda>(n, rest). (NumId (- int n), rest)) (dec_nat r)
          else None)"

definition ref_sign :: "JWTPayload \<Rightarrow> string \<Rightarrow> string \<Rightarrow> nat \<Rightarrow> exn + string" where
  "ref_sign p secret expiresIn t0 =
     (if secret = [] then Inl (Error ''secretOrPrivateKey must have a value'')
      else if expiresIn \<noteq> ''7d'' then Inl (Error ''unsupported expiresIn'')
      else Inr (enc_str secret @ enc_id (userId p) @ enc_str (email p) @ enc_nat (t0 div 1000)))"

definition ref_verify :: "string \<Rightarrow> string \<Rightarrow> nat \<Rightarrow> exn + JwtDecoded" where
  "ref_verify tok secret t1 =
     (case dec_str tok of
        None \<Rightarrow> Inl (JsonWebTokenError ''jwt malformed'')
      | Some (s, r1) \<Rightarrow>
          if s \<noteq> secret then Inl (JsonWebTokenError ''invalid signature'')
          else (case dec_id r1 of
                  None \<Rightarrow> Inl (JsonWebTokenError ''jwt malformed'')
                | Some (uid, r2) \<Rightarrow>
                    (case dec_str r2 of
                       None \<Rightarrow> Inl (JsonWebTokenError ''jwt malformed'')
                     | Some (em, r3) \<Rightarrow>
                         (case dec_nat r3 of
                            None \<Rightarrow> Inl (JsonWebTokenError ''jwt malformed'')
                          | Some (issued, rest) \<Rightarrow>
                              if rest \<noteq> [] then Inl (JsonWebTokenError ''jwt malformed'')
                              else if t1 div 1000 < issued + seven_days
                              then Inr \<lparr>userId = uid, email = em, iat = issued,
                                        exp_at = issued + seven_days\<rparr>
                              else Inl (TokenExpiredError ''jwt expired'')))))"

definition ref_jwt :: jwt_lib where
  "ref_jwt = \<lparr>jwt_sign = ref_sign, jwt_verify = ref_verify\<rparr>"

definition ref_hash :: "string \<Rightarrow> nat \<Rightarrow> string \<Rightarrow> string" where
  "ref_hash password rounds salt = ''$2a$'' @ enc_nat rounds @ enc_str salt @ enc_str password"

definition ref_compare :: "string \<Rightarrow> string \<Rightarrow> bool" where
  "ref_compare password h =
     (take 4 h = ''$2a$'' \<and>
      (case dec_nat (drop 4 h) of
         None \<Rightarrow> False
       | Some (rounds, r1) \<Rightarrow>
           (case dec_str r1 of
              None \<Rightarrow> False
            | Some (salt, digest) \<Rightarrow> digest = enc_str password)))"

definition ref_bcrypt :: bcrypt_lib where
  "ref_bcrypt = \<lparr>bcrypt_hash = ref_hash, bcrypt_compare = ref_compare\<rparr>"

text \<open>
  The reference interpretation as libraries of a process, and a variant of it whose
  \<open>sign\<close> appends the bytes drawn to the token, as a random token identifier would.
\<close>

definition ref_node :: node_libs where
  "ref_node =
     \<lparr>sign_call = (\<lambda>drawn. ref_sign), verify_call = (\<lambda>drawn. ref_verify),
      hash_call = (\<lambda>drawn password rounds. ref_hash password rounds drawn),
      compare_call = (\<lambda>drawn. ref_compare)\<rparr>"

definition nonce_node :: node_libs where
  "nonce_node =
     ref_node\<lparr>sign_call :=
       (\<lambda>drawn p secret expiresIn t0.
          case ref_sign p secret expiresIn t0 of
            Inl thrown \<Rightarrow> Inl thrown
          | Inr token \<Rightarrow> Inr (token @ enc_str drawn))\<rparr>"

section \<open>A small deployment\<close>

definition demo_user :: user_row where
  "demo_user =
     \<lparr>user_id = StrId ''7d9f0c1e-5b2a-4c3d-8e9f-0a1b2c3d4e5f'',
      user_email = ''alice@example.com'',
      user_name = JStr ''Alice'',
      password_hash = ref_hash ''secret123'' 10 ''NaCl''\<rparr>"

definition demo_project :: project_row where
  "demo_project =
     \<lparr>row_id = JNum (Finite 1), row_title = JStr ''Website'', row_status = JStr ''active'',
      row_deadline = JStr ''2025-01-31'', row_assigned_to = JStr ''Alice'',
      row_budget = DecString ''1200.50'', row_description = JNull,
      row_created_at = JStr ''2024-01-01T00:00:00Z'',
      row_updated_at = JStr ''2024-01-01T00:00:00Z''\<rparr>"

definition no_rows :: db_error where
  "no_rows = \<lparr>code = ''PGRST116''\<rparr>"

definition demo_store :: datastore where
  "demo_store =
     \<lparr>select_projects = (\<lambda>st search. \<lparr>data = Some [demo_project], error = None\<rparr>),
      select_project_by_id =
        (\<lambda>n. if n = Finite 1 then \<lparr>data = Some demo_project, error = None\<rparr>
              else \<lparr>data = None, error = Some no_rows\<rparr>),
      insert_project = (\<lambda>row. \<lparr>data = Some demo_project, error = None\<rparr>),
      update_project =
        (\<lambda>n d. if n = Finite 1 then \<lparr>data = Some demo_project, error = None\<rparr>
                else \<lparr>data = None, error = Some no_rows\<rparr>),
      delete_project =
        (\<lambda>n. if n = Finite 1 then \<lparr>data = Some (JObj [(''id'', JNum (Finite 1))]), error = None\<rparr>
              else \<lparr>data = None, error = None\<rparr>),
      select_user_by_email =
        (\<lambda>e. if e = ''alice@example.com'' then \<lparr>data = Some demo_user, error = None\<rparr>
              else \<lparr>data = None, error = Some no_rows\<rparr>)\<rparr>"

definition demo_server :: server where
  "demo_server =
     \<lparr>jwt = ref_jwt, bcrypt = ref_bcrypt,
      env = \<lparr>env_JWT_SECRET = None, env_NODE_ENV = None\<rparr>,
      Date_now = 5000, random_bytes = ''NaCl'',
      supabase = demo_store,
      z_email = (\<lambda>s. CHR ''@'' \<in> set s)\<rparr>"

definition demo_env :: process_env where
  "demo_env = \<lparr>env_JWT_SECRET = None, env_NODE_ENV = None\<rparr>"

definition demo_claim :: JWTPayload where
  "demo_claim = \<lparr>userId = user_id demo_user, email = user_email demo_user\<rparr>"

definition anonymous_request :: request where
  "anonymous_request =
     \<lparr>cookies = Map.empty, searchParams = Map.empty, request_json = Inr (JObj [])\<rparr>"

text \<open>A request that carries, as its \<open>token\<close> cookie, the token issued for \<open>demo_claim\<close>.\<close>

definition signed_in_request :: request where
  "signed_in_request =
     \<lparr>cookies = (case generateToken demo_server demo_claim of
                   Inl thrown \<Rightarrow> Map.empty
                 | Inr token \<Rightarrow> [''token'' \<mapsto> token]),
      searchParams = Map.empty,
      request_json = Inr (JObj [])\<rparr>"

text \<open>
  The token issued for \<open>demo_claim\<close>, and a token for the same claim signed under a secret
  that is not the server's.
\<close>

definition forged_token :: string where
  "forged_token =
     (case ref_sign demo_claim ''rotated'' ''7d'' 5000 of Inl thrown \<Rightarrow> [] | Inr token \<Rightarrow> token)"

definition demo_token :: string where
  "demo_token =
     (case generateToken demo_server demo_claim of Inl thrown \<Rightarrow> [] | Inr token \<Rightarrow> token)"

definition login_request :: "string \<Rightarrow> string \<Rightarrow> request" where
  "login_request em pw =
     \<lparr>cookies = Map.empty, searchParams = Map.empty,
      request_json = Inr (JObj [(''email'', JStr em), (''password'', JStr pw)])\<rparr>"

section \<open>The reference interpretation meets the contracts\<close>

lemma dec_enc_str: "dec_str (enc_str s @ r) = Some (s, r)"
  by (induction s) (auto simp: neq_Nil_conv split: list.splits, (cases r; simp)+)

lemma dec_enc_nat: "dec_nat (enc_nat n @ r) = Some (n, r)"
  by (simp add: dec_nat_def enc_nat_def dropWhile_append3 takeWhile_tail)

lemma dec_enc_id: "dec_id (enc_id i @ r) = Some (i, r)"
  by (cases i) (auto simp: dec_id_def enc_id_def dec_enc_str dec_enc_nat)

lemma enc_nat_not_Nil: "enc_nat n \<noteq> []"
  by (simp add: enc_nat_def)

lemma ref_jwt_contract: "jwt_contract ref_jwt"
  unfolding jwt_contract_def ref_jwt_def
  by (simp add: ref_sign_def ref_verify_def dec_enc_str dec_enc_id dec_enc_nat decoded_def
      dec_enc_nat [of _ "[]", simplified] enc_nat_not_Nil)

lemma ref_bcrypt_contract: "bcrypt_contract ref_bcrypt"
  unfolding bcrypt_contract_def ref_bcrypt_def
  by (simp add: ref_hash_def ref_compare_def dec_enc_nat dec_enc_str)

lemma JWT_SECRET_not_empty: "JWT_SECRET E \<noteq> []"
  by (simp add: JWT_SECRET_def js_or_def fallback_secret_def split: option.splits)

lemma verifyToken_eq:
  "verifyToken R token =
     Inr (case jwt_verify (jwt R) token (JWT_SECRET (env R)) (Date_now R) of
            Inl thrown \<Rightarrow> None | Inr d \<Rightarrow> Some d)"
  by (simp add: verifyToken_def try_catch_def split: sum.splits)

lemma issue_then_verify:
  assumes "jwt_contract (jwt R)"
  shows "\<exists>tok. generateToken R c = Inr tok \<and> tok \<noteq> [] \<and>
           (\<forall>t1. verifyToken (R\<lparr>Date_now := t1\<rparr>) tok =
              Inr (if t1 div 1000 < Date_now R div 1000 + seven_days
                   then Some (decoded c (Date_now R)) else None))"
proof -
  from assms JWT_SECRET_not_empty [of "env R"]
  obtain tok where tok: "jwt_sign (jwt R) c (JWT_SECRET (env R)) ''7d'' (Date_now R) = Inr tok"
      "tok \<noteq> []"
    and ver: "\<And>t1. jwt_verify (jwt R) tok (JWT_SECRET (env R)) t1 =
                   (if t1 div 1000 < Date_now R div 1000 + seven_days
                    then Inr (decoded c (Date_now R))
                    else Inl (TokenExpiredError ''jwt expired''))"
    unfolding jwt_contract_def by blast
  show ?thesis
    using tok by (simp add: generateToken_def verifyToken_eq ver)
qed

section \<open>Token Codec\<close>

text \<open>
  C1 (token round trip). Under the contract of the token library: for every identity claim
  \<open>c\<close>, issuing a token at clock \<open>Date_now R\<close> succeeds, and decoding that token under
  the same configuration at any clock \<open>t1\<close> whose second lies before the expiry, seven days
  after the second of issue, returns a claim with the \<open>userId\<close> and the \<open>email\<close> of \<open>c\<close>.
  (The object returned also carries \<open>iat\<close> and \<open>exp\<close>.)
\<close>

theorem token_round_trip:
  assumes "jwt_contract (jwt R)"
    and "t1 div 1000 < Date_now R div 1000 + seven_days"
  shows "\<exists>tok d. generateToken R c = Inr tok
           \<and> verifyToken (R\<lparr>Date_now := t1\<rparr>) tok = Inr (Some d)
           \<and> userId d = userId c \<and> email d = email c"
proof -
  from issue_then_verify [OF assms(1), of c] obtain tok where
    "generateToken R c = Inr tok"
    "verifyToken (R\<lparr>Date_now := t1\<rparr>) tok = Inr (Some (decoded c (Date_now R)))"
    using assms(2) by auto
  moreover have "userId (decoded c (Date_now R)) = userId c"
    "email (decoded c (Date_now R)) = email c"
    by (simp_all add: decoded_def)
  ultimately show ?thesis by blast
qed

lemma demo_jwt: "jwt demo_server = ref_jwt"
  by (simp add: demo_server_def)

lemma demo_now: "Date_now demo_server = 5000"
  by (simp add: demo_server_def)

theorem token_round_trip_witness:
  "jwt_contract (jwt demo_server)
   \<and> (604804999 :: nat) div 1000 < Date_now demo_server div 1000 + seven_days
   \<and> (\<exists>tok d. generateToken demo_server demo_claim = Inr tok
         \<and> verifyToken (demo_server\<lparr>Date_now := 604804999\<rparr>) tok = Inr (Some d)
         \<and> userId d = userId demo_claim \<and> email d = email demo_claim)"
proof -
  have c: "jwt_contract (jwt demo_server)"
    by (simp add: demo_jwt ref_jwt_contract)
  have w: "(604804999 :: nat) div 1000 < Date_now demo_server div 1000 + seven_days"
    by (simp add: demo_now seven_days_def)
  from token_round_trip [OF c w, of demo_claim] c w show ?thesis by blast
qed

text \<open>
  C2 (decoding absorbs every failure). For every input string \<open>verifyToken\<close> returns
  normally: the decoded claim when \<open>jwt.verify\<close> returns one, and null whenever
  \<open>jwt.verify\<close> throws, whatever it throws (invalid signature, malformed token, expired
  token). It never throws itself.
\<close>

theorem verifyToken_absorbs_failures:
  "verifyToken R token =
     Inr (case jwt_verify (jwt R) token (JWT_SECRET (env R)) (Date_now R) of
            Inl thrown \<Rightarrow> None | Inr d \<Rightarrow> Some d)"
  by (simp add: verifyToken_def try_catch_def split: sum.splits)

lemma demo_secret: "JWT_SECRET (env demo_server) = fallback_secret"
  by (simp add: JWT_SECRET_def js_or_def demo_server_def)

lemma malformed_is_thrown:
  "jwt_verify (jwt demo_server) ''not-a-jwt'' (JWT_SECRET (env demo_server)) (Date_now demo_server)
     = Inl (JsonWebTokenError ''jwt malformed'')"
  by (simp add: demo_jwt ref_jwt_def ref_verify_def)

lemma forged_is_thrown:
  "jwt_verify (jwt demo_server) forged_token (JWT_SECRET (env demo_server)) (Date_now demo_server)
     = Inl (JsonWebTokenError ''invalid signature'')"
proof -
  have tok: "forged_token = enc_str ''rotated'' @ enc_id (userId demo_claim)
          @ enc_str (email demo_claim) @ enc_nat 5"
    by (simp add: forged_token_def ref_sign_def)
  have "fallback_secret \<noteq> ''rotated''"
    by (simp add: fallback_secret_def)
  then show ?thesis
    by (simp add: tok demo_jwt demo_secret ref_jwt_def ref_verify_def dec_enc_str
        del: enc_str.simps)
qed

lemma expired_is_thrown:
  "jwt_verify (jwt demo_server) demo_token (JWT_SECRET (env demo_server))
     (5000 + 1000 * seven_days) = Inl (TokenExpiredError ''jwt expired'')"
proof -
  have tok: "demo_token = enc_str fallback_secret @ enc_id (userId demo_claim)
          @ enc_str (email demo_claim) @ enc_nat 5"
    by (simp add: demo_token_def generateToken_def demo_jwt demo_secret demo_now ref_jwt_def
        ref_sign_def fallback_secret_def)
  show ?thesis
    by (simp add: tok demo_jwt demo_secret ref_jwt_def ref_verify_def dec_enc_str dec_enc_id
        dec_enc_nat [of _ "[]", simplified] del: enc_str.simps)
qed

theorem verifyToken_absorbs_failures_witness:
  "verifyToken demo_server ''not-a-jwt'' = Inr None
   \<and> verifyToken demo_server forged_token = Inr None
   \<and> verifyToken (demo_server\<lparr>Date_now := 5000 + 1000 * seven_days\<rparr>) demo_token = Inr None"
  using verifyToken_absorbs_failures [of demo_server "''not-a-jwt''"]
    verifyToken_absorbs_failures [of demo_server forged_token]
    verifyToken_absorbs_failures [of "demo_server\<lparr>Date_now := 5000 + 1000 * seven_days\<rparr>"
      demo_token]
    malformed_is_thrown forged_is_thrown expired_is_thrown
  by simp

text \<open>
  C8 (secret configuration). Signing and verification are called with one and the same
  secret, \<open>JWT_SECRET\<close>: the configured value of \<open>process.env.JWT_SECRET\<close> when there
  is one (and it is not empty), and the hardcoded development fallback when it is absent.
\<close>

theorem secret_configuration:
  "generateToken R p = jwt_sign (jwt R) p (JWT_SECRET (env R)) ''7d'' (Date_now R)
   \<and> verifyToken R token =
        Inr (case jwt_verify (jwt R) token (JWT_SECRET (env R)) (Date_now R) of
               Inl thrown \<Rightarrow> None | Inr d \<Rightarrow> Some d)
   \<and> (env_JWT_SECRET (env R) = None \<longrightarrow>
        JWT_SECRET (env R) = ''your-super-secret-jwt-key-change-in-production'')
   \<and> (env_JWT_SECRET (env R) = Some s \<and> s \<noteq> [] \<longrightarrow> JWT_SECRET (env R) = s)"
  by (simp add: verifyToken_eq generateToken_def JWT_SECRET_def js_or_def fallback_secret_def)

theorem secret_configuration_witness:
  "env_JWT_SECRET (env demo_server) = None
   \<and> JWT_SECRET (env demo_server) = ''your-super-secret-jwt-key-change-in-production''
   \<and> env_JWT_SECRET (env (demo_server\<lparr>env := \<lparr>env_JWT_SECRET = Some ''rotated'',
                                                  env_NODE_ENV = None\<rparr>\<rparr>)) = Some ''rotated''
   \<and> JWT_SECRET (env (demo_server\<lparr>env := \<lparr>env_JWT_SECRET = Some ''rotated'',
                                              env_NODE_ENV = None\<rparr>\<rparr>)) = ''rotated''"
proof -
  let ?R = "demo_server\<lparr>env := \<lparr>env_JWT_SECRET = Some ''rotated'', env_NODE_ENV = None\<rparr>\<rparr>"
  have a: "env_JWT_SECRET (env demo_server) = None"
    by (simp add: demo_server_def)
  have b: "env_JWT_SECRET (env ?R) = Some ''rotated'' \<and> ''rotated'' \<noteq> ([] :: string)"
    by simp
  from secret_configuration [of demo_server _ _ "''rotated''"] a
  have 1: "JWT_SECRET (env demo_server) = ''your-super-secret-jwt-key-change-in-production''"
    by blast
  from secret_configuration [of ?R _ _ "''rotated''"] b
  have 2: "JWT_SECRET (env ?R) = ''rotated''"
    by blast
  from a 1 b 2 show ?thesis by blast
qed

section \<open>Credential Hasher\<close>

text \<open>
  C6 (credential round trip). Under the contract of the hashing library: for every plaintext
  \<open>p\<close> and whatever salt the call draws, \<open>verifyPassword p (hashPassword p)\<close> is true,
  and \<open>hashPassword\<close> calls \<open>bcrypt.hash\<close> with cost factor 10.
\<close>

theorem credential_round_trip:
  assumes "bcrypt_contract (bcrypt R)"
  shows "verifyPassword R p (hashPassword (R\<lparr>random_bytes := salt\<rparr>) p)
         \<and> hashPassword (R\<lparr>random_bytes := salt\<rparr>) p = bcrypt_hash (bcrypt R) p 10 salt"
  using assms by (simp add: bcrypt_contract_def verifyPassword_def hashPassword_def)

theorem credential_round_trip_witness:
  "bcrypt_contract (bcrypt demo_server)
   \<and> verifyPassword demo_server ''secret123''
        (hashPassword (demo_server\<lparr>random_bytes := ''pepper''\<rparr>) ''secret123'')"
proof -
  have c: "bcrypt_contract (bcrypt demo_server)"
    by (simp add: demo_server_def ref_bcrypt_contract)
  from credential_round_trip [OF c, of "''secret123''" "''pepper''"] c show ?thesis by blast
qed

section \<open>Determinism\<close>



lemma during_call_fields:
  "jwt (during_call N E now d) = \<lparr>jwt_sign = sign_call N d, jwt_verify = verify_call N d\<rparr>"
  "bcrypt (during_call N E now d) =
     \<lparr>bcrypt_hash = (\<lambda>password rounds salt. hash_call N salt password rounds),
      bcrypt_compare = compare_call N d\<rparr>"
  "env (during_call N E now d) = E"
  "Date_now (during_call N E now d) = now"
  "random_bytes (during_call N E now d) = d"
  by (simp_all add: during_call_def)


lemma nonce_node_not_deterministic: "\<not> deterministic_calls nonce_node"
proof
  assume "deterministic_calls nonce_node"
  then have "sign_call nonce_node ''a'' demo_claim ''k'' ''7d'' 0
           = sign_call nonce_node ''b'' demo_claim ''k'' ''7d'' 0"
    unfolding deterministic_calls_def by metis
  then show False
    by (simp add: nonce_node_def ref_node_def ref_sign_def)
qed

lemma generateToken_draws_with_nonce_node:
  "generateToken (during_call nonce_node demo_env 5000 ''a'') demo_claim
   \<noteq> generateToken (during_call nonce_node demo_env 5000 ''b'') demo_claim"
  by (simp add: generateToken_def during_call_fields nonce_node_def ref_node_def ref_sign_def
      JWT_SECRET_not_empty)




section \<open>The gate and the handlers\<close>

lemma getCurrentUser_returns: "\<exists>r. getCurrentUser R request = Inr r"
  by (simp add: getCurrentUser_def verifyToken_eq split: option.splits)

lemma requireAuth_eq:
  "requireAuth R request =
     (case getCurrentUser R request of
        Inr (Some u) \<Rightarrow> Inr u
      | _ \<Rightarrow> Inl (Error ''Unauthorized''))"
  using getCurrentUser_returns [of R request]
  by (auto simp: requireAuth_def split: option.splits)

lemma requireAuth_throws_Unauthorized:
  "requireAuth R request = Inl thrown \<Longrightarrow> thrown = Error ''Unauthorized''"
  by (auto simp: requireAuth_eq split: sum.splits option.splits)

lemma gate_closed:
  "requireAuth R request = Inl thrown \<Longrightarrow>
     await_requireAuth R request = (Inl (Error ''Unauthorized''), [Gate False])"
  by (frule requireAuth_throws_Unauthorized) (simp add: await_requireAuth_def)

lemma gate_open:
  "requireAuth R request = Inr u \<Longrightarrow> await_requireAuth R request = (Inr u, [Gate True])"
  by (simp add: await_requireAuth_def)

lemma await_Inl [simp]: "await (Inl e, tr) k = (Inl e, tr)"
  by (simp add: await_def)

lemma await_Inr [simp]: "await (Inr v, tr) k = (fst (k v), tr @ snd (k v))"
  by (simp add: await_def split: prod.splits)

lemma catch_Inl [simp]:
  "try_catch_eff (Inl e, tr) h = (fst (h e), tr @ snd (h e))"
  by (simp add: try_catch_eff_def split: prod.splits)

lemma catch_Inr [simp]: "try_catch_eff (Inr v, tr) h = (Inr v, tr)"
  by (simp add: try_catch_eff_def)

lemma GET_projects_closed:
  "requireAuth S request = Inl thrown \<Longrightarrow> GET_projects S request = (Inr unauthorized, [Gate False])"
  by (simp add: GET_projects_def gate_closed ret_def)

lemma POST_projects_closed:
  "requireAuth S request = Inl thrown \<Longrightarrow> POST_projects S request = (Inr unauthorized, [Gate False])"
  by (simp add: POST_projects_def gate_closed ret_def)

lemma GET_project_closed:
  "requireAuth S request = Inl thrown \<Longrightarrow> GET_project S request pid = (Inr unauthorized, [Gate False])"
  by (simp add: GET_project_def gate_closed ret_def)

lemma PUT_project_closed:
  "requireAuth S request = Inl thrown \<Longrightarrow> PUT_project S request pid = (Inr unauthorized, [Gate False])"
  by (simp add: PUT_project_def gate_closed ret_def)

lemma DELETE_project_closed:
  "requireAuth S request = Inl thrown \<Longrightarrow> DELETE_project S request pid = (Inr unauthorized, [Gate False])"
  by (simp add: DELETE_project_def gate_closed ret_def)

lemma GET_me_trace: "snd (GET_me S request) = []"
  using getCurrentUser_returns [of S request]
  by (auto simp: GET_me_def pure_call_def ret_def split: option.splits)

lemma gated_passed: "passed \<Longrightarrow> gated passed tr"
  by (induction passed tr rule: gated.induct) simp_all

lemma gated_True: "gated True tr"
  by (simp add: gated_passed)

lemma await_trace_prefix: "\<exists>rest. snd (await (r, tr) k) = tr @ rest"
  by (cases r) simp_all

lemma catch_trace_prefix: "\<exists>rest. snd (try_catch_eff (r, tr) h) = tr @ rest"
  by (cases r) simp_all

lemma gate_comes_first:
  assumes "requireAuth S request = Inr u"
  shows "\<exists>rest. snd (try_catch_eff (await (await_requireAuth S request) k) h) = Gate True # rest"
proof -
  obtain r rest where a: "await (await_requireAuth S request) k = (r, [Gate True] @ rest)"
    using await_trace_prefix [of "Inr u" "[Gate True]" k] gate_open [OF assms]
    by (metis prod.collapse)
  obtain rest' where "snd (try_catch_eff (r, [Gate True] @ rest) h) = ([Gate True] @ rest) @ rest'"
    using catch_trace_prefix by blast
  with a show ?thesis by simp
qed

lemma gated_after_gate: "tr = Gate True # rest \<Longrightarrow> gated False tr"
  by (simp add: gated_True)

lemma db_queries_simps [simp]:
  "db_queries [] = []"
  "db_queries (Gate ok # tr) = db_queries tr"
  "db_queries (Db q # tr) = q # db_queries tr"
  "db_queries (ConsoleError l # tr) = db_queries tr"
  by (simp_all add: db_queries_def)

lemma GET_projects_gated: "gated False (snd (GET_projects S request))"
proof (cases "requireAuth S request")
  case (Inl thrown)
  then show ?thesis by (simp add: GET_projects_closed)
next
  case (Inr u)
  from gate_comes_first [OF this] show ?thesis
    unfolding GET_projects_def by (blast intro: gated_after_gate)
qed

lemma POST_projects_gated: "gated False (snd (POST_projects S request))"
proof (cases "requireAuth S request")
  case (Inl thrown)
  then show ?thesis by (simp add: POST_projects_closed)
next
  case (Inr u)
  from gate_comes_first [OF this] show ?thesis
    unfolding POST_projects_def by (blast intro: gated_after_gate)
qed

lemma GET_project_gated: "gated False (snd (GET_project S request pid))"
proof (cases "requireAuth S request")
  case (Inl thrown)
  then show ?thesis by (simp add: GET_project_closed)
next
  case (Inr u)
  from gate_comes_first [OF this] show ?thesis
    unfolding GET_project_def by (blast intro: gated_after_gate)
qed

lemma PUT_project_gated: "gated False (snd (PUT_project S request pid))"
proof (cases "requireAuth S request")
  case (Inl thrown)
  then show ?thesis by (simp add: PUT_project_closed)
next
  case (Inr u)
  from gate_comes_first [OF this] show ?thesis
    unfolding PUT_project_def by (blast intro: gated_after_gate)
qed

lemma DELETE_project_gated: "gated False (snd (DELETE_project S request pid))"
proof (cases "requireAuth S request")
  case (Inl thrown)
  then show ?thesis by (simp add: DELETE_project_closed)
next
  case (Inr u)
  from gate_comes_first [OF this] show ?thesis
    unfolding DELETE_project_def by (blast intro: gated_after_gate)
qed

subsection \<open>Runs of the small deployment\<close>

lemma anonymous_getCurrentUser: "getCurrentUser demo_server anonymous_request = Inr None"
  by (simp add: getCurrentUser_def anonymous_request_def)

lemma anonymous_requireAuth:
  "requireAuth demo_server anonymous_request = Inl (Error ''Unauthorized'')"
  by (simp add: requireAuth_def anonymous_getCurrentUser)

lemma demo_contract: "jwt_contract (jwt demo_server)"
  by (simp add: demo_jwt ref_jwt_contract)

lemma signed_in_getCurrentUser:
  "getCurrentUser demo_server signed_in_request = Inr (Some (decoded demo_claim 5000))"
proof -
  from issue_then_verify [OF demo_contract, of demo_claim] obtain tok where
    tok: "generateToken demo_server demo_claim = Inr tok" "tok \<noteq> []"
    and ver: "verifyToken (demo_server\<lparr>Date_now := 5000\<rparr>) tok =
                Inr (if (5000::nat) div 1000 < Date_now demo_server div 1000 + seven_days
                     then Some (decoded demo_claim (Date_now demo_server)) else None)"
    by blast
  have same: "demo_server\<lparr>Date_now := 5000\<rparr> = demo_server"
    by (simp add: demo_server_def)
  from tok ver show ?thesis
    by (simp add: getCurrentUser_def signed_in_request_def same demo_now seven_days_def)
qed

lemma signed_in_requireAuth:
  "requireAuth demo_server signed_in_request = Inr (decoded demo_claim 5000)"
  by (simp add: requireAuth_def signed_in_getCurrentUser)

lemma signed_in_list_trace:
  "snd (GET_projects demo_server signed_in_request) = [Gate True, Db (SelectProjects None None)]"
proof -
  have "supabase demo_server = demo_store"
    by (simp add: demo_server_def)
  moreover have "searchParams signed_in_request = Map.empty"
    by (simp add: signed_in_request_def)
  ultimately show ?thesis
    by (simp add: GET_projects_def gate_open [OF signed_in_requireAuth]
        truthy_def query_def ret_def deref_def demo_store_def Let_def)
qed

lemma expired_getCurrentUser:
  "getCurrentUser (demo_server\<lparr>Date_now := 5000 + 1000 * seven_days\<rparr>) signed_in_request = Inr None"
proof -
  from issue_then_verify [OF demo_contract, of demo_claim] obtain tok where
    tok: "generateToken demo_server demo_claim = Inr tok" "tok \<noteq> []"
    and ver: "verifyToken (demo_server\<lparr>Date_now := 5000 + 1000 * seven_days\<rparr>) tok =
                Inr (if (5000 + 1000 * seven_days) div 1000 < Date_now demo_server div 1000 + seven_days
                     then Some (decoded demo_claim (Date_now demo_server)) else None)"
    by blast
  from tok ver show ?thesis
    by (simp add: getCurrentUser_def signed_in_request_def demo_now)
qed

lemma other_secret_getCurrentUser:
  "getCurrentUser (demo_server\<lparr>env := \<lparr>env_JWT_SECRET = Some ''rotated'', env_NODE_ENV = None\<rparr>\<rparr>)
     signed_in_request = Inr None"
proof -
  have tok: "generateToken demo_server demo_claim =
      Inr (enc_str fallback_secret @ enc_id (userId demo_claim) @ enc_str (email demo_claim)
           @ enc_nat 5)"
    by (simp add: generateToken_def demo_server_def ref_jwt_def ref_sign_def JWT_SECRET_def
        js_or_def fallback_secret_def)
  let ?R = "demo_server\<lparr>env := \<lparr>env_JWT_SECRET = Some ''rotated'', env_NODE_ENV = None\<rparr>\<rparr>"
  have lib: "jwt ?R = ref_jwt"
    by (simp add: demo_server_def)
  have sec: "JWT_SECRET \<lparr>env_JWT_SECRET = Some ''rotated'', env_NODE_ENV = None\<rparr> = ''rotated''"
    by (simp add: JWT_SECRET_def js_or_def)
  have "fallback_secret \<noteq> ''rotated''"
    by (simp add: fallback_secret_def)
  then show ?thesis
    by (simp add: getCurrentUser_def signed_in_request_def tok verifyToken_eq lib sec
        ref_jwt_def ref_verify_def dec_enc_str)
qed

lemma signed_in_cookie:
  "\<exists>tok. generateToken (demo_server\<lparr>Date_now := 5000\<rparr>) demo_claim = Inr tok
         \<and> cookies signed_in_request ''token'' = Some tok"
proof -
  have same: "demo_server\<lparr>Date_now := 5000\<rparr> = demo_server"
    by (simp add: demo_server_def)
  from issue_then_verify [OF demo_contract, of demo_claim] obtain tok where
    "generateToken demo_server demo_claim = Inr tok" by blast
  then show ?thesis
    by (simp add: same signed_in_request_def)
qed

section \<open>Authorization Gate\<close>

text \<open>
  C3 (authorization gate). For every request, either \<open>getCurrentUser\<close> returns a claim and
  \<open>requireAuth\<close> returns that claim, or \<open>getCurrentUser\<close> returns null and
  \<open>requireAuth\<close> throws the one error \<open>Unauthorized\<close>; in the second case every protected
  handler answers with the same response, status 401 and body \<open>{ error: 'Unauthorized' }\<close>,
  which carries nothing about why no identity was found.
\<close>

theorem authorization_gate:
  "(\<exists>u. getCurrentUser S request = Inr (Some u) \<and> requireAuth S request = Inr u)
   \<or> (getCurrentUser S request = Inr None
      \<and> requireAuth S request = Inl (Error ''Unauthorized'')
      \<and> fst (GET_projects S request) = Inr unauthorized
      \<and> fst (POST_projects S request) = Inr unauthorized
      \<and> fst (GET_project S request params_id) = Inr unauthorized
      \<and> fst (PUT_project S request params_id) = Inr unauthorized
      \<and> fst (DELETE_project S request params_id) = Inr unauthorized
      \<and> fst (GET_me S request) = Inr unauthorized
      \<and> http_status unauthorized = 401
      \<and> body unauthorized = JObj [(''error'', JStr ''Unauthorized'')])"
proof (cases "getCurrentUser S request")
  case (Inl thrown)
  with getCurrentUser_returns [of S request] show ?thesis by simp
next
  case (Inr r)
  show ?thesis
  proof (cases r)
    case None
    with Inr have "requireAuth S request = Inl (Error ''Unauthorized'')"
      by (simp add: requireAuth_def)
    with Inr None show ?thesis
      by (simp add: GET_projects_closed POST_projects_closed GET_project_closed
          PUT_project_closed DELETE_project_closed GET_me_def pure_call_def ret_def
          unauthorized_def NextResponse_json_def error_body_def)
  next
    case (Some u)
    with Inr show ?thesis by (simp add: requireAuth_def)
  qed
qed

theorem authorization_gate_witness:
  "fst (GET_projects demo_server anonymous_request) = Inr unauthorized
   \<and> fst (GET_projects (demo_server\<lparr>Date_now := 5000 + 1000 * seven_days\<rparr>) signed_in_request)
       = Inr unauthorized
   \<and> fst (GET_projects (demo_server\<lparr>env := \<lparr>env_JWT_SECRET = Some ''rotated'',
                                               env_NODE_ENV = None\<rparr>\<rparr>) signed_in_request)
       = Inr unauthorized
   \<and> requireAuth demo_server signed_in_request = Inr (decoded demo_claim 5000)"
  using authorization_gate [of demo_server anonymous_request "''1''"]
    authorization_gate [of "demo_server\<lparr>Date_now := 5000 + 1000 * seven_days\<rparr>"
      signed_in_request "''1''"]
    authorization_gate [of "demo_server\<lparr>env := \<lparr>env_JWT_SECRET = Some ''rotated'',
      env_NODE_ENV = None\<rparr>\<rparr>" signed_in_request "''1''"]
    authorization_gate [of demo_server signed_in_request "''1''"]
    anonymous_getCurrentUser expired_getCurrentUser other_secret_getCurrentUser
    signed_in_getCurrentUser
  by simp

section \<open>Request Authenticator\<close>

text \<open>
  C4 (request authenticator). Without a cookie named \<open>token\<close>, \<open>getCurrentUser\<close> returns
  null. With a cookie holding a token that was issued for the claim \<open>c\<close> under the same
  configuration at clock \<open>t0\<close> and has not expired, it returns the claim embedded in the
  token (under the contract of the token library). Its result does not depend on the
  datastore.
\<close>

theorem request_authenticator:
  "(cookies request ''token'' = None \<longrightarrow> getCurrentUser S request = Inr None)
   \<and> (jwt_contract (jwt S) \<and> generateToken (S\<lparr>Date_now := t0\<rparr>) c = Inr tok
        \<and> cookies request ''token'' = Some tok
        \<and> Date_now S div 1000 < t0 div 1000 + seven_days
      \<longrightarrow> getCurrentUser S request = Inr (Some (decoded c t0)))
   \<and> getCurrentUser (S\<lparr>supabase := db\<rparr>) request = getCurrentUser S request"
proof (intro conjI impI)
  assume "cookies request ''token'' = None"
  then show "getCurrentUser S request = Inr None"
    by (simp add: getCurrentUser_def)
next
  assume a: "jwt_contract (jwt S) \<and> generateToken (S\<lparr>Date_now := t0\<rparr>) c = Inr tok
        \<and> cookies request ''token'' = Some tok
        \<and> Date_now S div 1000 < t0 div 1000 + seven_days"
  then have "jwt_contract (jwt (S\<lparr>Date_now := t0\<rparr>))" by simp
  from issue_then_verify [OF this, of c] a
  have ne: "tok \<noteq> []"
    and ver: "verifyToken (S\<lparr>Date_now := t0\<rparr>\<lparr>Date_now := t1\<rparr>) tok =
           Inr (if t1 div 1000 < t0 div 1000 + seven_days then Some (decoded c t0) else None)"
    for t1
    by auto
  have "S\<lparr>Date_now := t0\<rparr>\<lparr>Date_now := Date_now S\<rparr> = S"
    by simp
  with ver [of "Date_now S"] a have "verifyToken S tok = Inr (Some (decoded c t0))"
    by simp
  with a ne show "getCurrentUser S request = Inr (Some (decoded c t0))"
    by (simp add: getCurrentUser_def)
next
  show "getCurrentUser (S\<lparr>supabase := db\<rparr>) request = getCurrentUser S request"
    by (simp add: getCurrentUser_def verifyToken_def split: option.splits)
qed

theorem request_authenticator_witness:
  "cookies anonymous_request ''token'' = None
   \<and> getCurrentUser demo_server anonymous_request = Inr None
   \<and> jwt_contract (jwt demo_server)
   \<and> Date_now demo_server div 1000 < 5000 div 1000 + seven_days
   \<and> getCurrentUser demo_server signed_in_request = Inr (Some (decoded demo_claim 5000))"
proof -
  have a: "cookies anonymous_request ''token'' = None"
    by (simp add: anonymous_request_def)
  have w: "Date_now demo_server div 1000 < 5000 div 1000 + seven_days"
    by (simp add: demo_now seven_days_def)
  from signed_in_cookie obtain tok where
    tok: "generateToken (demo_server\<lparr>Date_now := 5000\<rparr>) demo_claim = Inr tok"
      "cookies signed_in_request ''token'' = Some tok"
    by blast
  from request_authenticator [of anonymous_request demo_server 5000 demo_claim tok demo_store] a
  have 1: "getCurrentUser demo_server anonymous_request = Inr None" by blast
  from request_authenticator [of signed_in_request demo_server 5000 demo_claim tok demo_store]
    demo_contract tok w
  have 2: "getCurrentUser demo_server signed_in_request = Inr (Some (decoded demo_claim 5000))"
    by blast
  from a 1 demo_contract w 2 show ?thesis by blast
qed

section \<open>The gate comes before the datastore\<close>

text \<open>
  C5 (gate before datastore). In every run of list, create, get-by-id, update and delete,
  each datastore query of the trace comes after a gate call that succeeded, and a run in which
  \<open>requireAuth\<close> throws contains no datastore query at all. The route that fetches the
  current user makes its check through \<open>getCurrentUser\<close> and has an empty trace: it never
  reaches the datastore.
\<close>

theorem gate_before_datastore:
  "gated False (snd (GET_projects S request))
   \<and> gated False (snd (POST_projects S request))
   \<and> gated False (snd (GET_project S request params_id))
   \<and> gated False (snd (PUT_project S request params_id))
   \<and> gated False (snd (DELETE_project S request params_id))
   \<and> snd (GET_me S request) = []
   \<and> (requireAuth S request = Inl thrown \<longrightarrow>
        db_queries (snd (GET_projects S request)) = []
      \<and> db_queries (snd (POST_projects S request)) = []
      \<and> db_queries (snd (GET_project S request params_id)) = []
      \<and> db_queries (snd (PUT_project S request params_id)) = []
      \<and> db_queries (snd (DELETE_project S request params_id)) = [])"
  by (simp add: GET_projects_gated POST_projects_gated GET_project_gated PUT_project_gated
      DELETE_project_gated GET_me_trace GET_projects_closed POST_projects_closed
      GET_project_closed PUT_project_closed DELETE_project_closed)

theorem gate_before_datastore_witness:
  "requireAuth demo_server anonymous_request = Inl (Error ''Unauthorized'')
   \<and> db_queries (snd (GET_projects demo_server anonymous_request)) = []
   \<and> db_queries (snd (DELETE_project demo_server anonymous_request ''1'')) = []
   \<and> snd (GET_projects demo_server signed_in_request) = [Gate True, Db (SelectProjects None None)]
   \<and> gated False (snd (GET_projects demo_server signed_in_request))"
  using gate_before_datastore [of demo_server anonymous_request "''1''" "Error ''Unauthorized''"]
    gate_before_datastore [of demo_server signed_in_request "''1''" "Error ''Unauthorized''"]
    anonymous_requireAuth signed_in_list_trace
  by simp

section \<open>Login\<close>

lemma login_unknown_email:
  assumes "unknown_email S request"
  shows "fst (POST_login S request) = Inr invalid_credentials"
proof -
  from assms obtain b em pw where
    "request_json request = Inr b" "loginSchema_parse (z_email S) b = Inr (em, pw)"
    "data (select_user_by_email (supabase S) em) = None"
    by (auto simp: unknown_email_def parsed_login_def split: sum.splits option.splits)
  then show ?thesis
    by (simp add: POST_login_def pure_call_def query_def ret_def console_error_def)
qed

lemma login_wrong_password:
  assumes "wrong_password S request"
  shows "fst (POST_login S request) = Inr invalid_credentials"
proof -
  from assms obtain b em pw user where
    "request_json request = Inr b" "loginSchema_parse (z_email S) b = Inr (em, pw)"
    "data (select_user_by_email (supabase S) em) = Some user"
    "\<not> verifyPassword S pw (password_hash user)"
    by (auto simp: wrong_password_def parsed_login_def split: sum.splits option.splits)
  then show ?thesis
    by (cases "error (select_user_by_email (supabase S) em)")
      (simp_all add: POST_login_def pure_call_def query_def ret_def deref_def console_error_def)
qed

text \<open>
  C7 (login indistinguishability). A login run in which the email exists and the password
  fails verification and a run in which the email does not exist return the same response:
  status 401 with the body \<open>{ error: 'Invalid credentials' }\<close>.
\<close>

theorem login_indistinguishable:
  assumes "wrong_password S1 request1" and "unknown_email S2 request2"
  shows "fst (POST_login S1 request1) = fst (POST_login S2 request2)
       \<and> client_view (POST_login S1 request1)
           = Some (401, JObj [(''error'', JStr ''Invalid credentials'')])
       \<and> client_view (POST_login S2 request2)
           = Some (401, JObj [(''error'', JStr ''Invalid credentials'')])"
  using login_wrong_password [OF assms(1)] login_unknown_email [OF assms(2)]
  by (simp add: client_view_def invalid_credentials_def NextResponse_json_def error_body_def)

lemma demo_parsed_login:
  "CHR ''@'' \<in> set em \<Longrightarrow> pw \<noteq> [] \<Longrightarrow>
     parsed_login demo_server (login_request em pw) = Some (em, pw)"
  by (simp add: parsed_login_def login_request_def loginSchema_parse_def z_required_def
      member_def z_string_regex_def z_string_min_def demo_server_def Suc_le_eq)

lemma demo_wrong_password:
  "wrong_password demo_server (login_request ''alice@example.com'' ''wrongpass'')"
proof -
  have "\<not> ref_compare ''wrongpass'' (ref_hash ''secret123'' 10 ''NaCl'')"
    by (simp add: ref_compare_def ref_hash_def dec_enc_nat dec_enc_str)
  moreover have "supabase demo_server = demo_store" "bcrypt demo_server = ref_bcrypt"
    by (simp_all add: demo_server_def)
  ultimately show ?thesis
    by (simp add: wrong_password_def demo_parsed_login demo_store_def demo_user_def
        verifyPassword_def ref_bcrypt_def)
qed

lemma demo_unknown_email:
  "unknown_email demo_server (login_request ''bob@example.com'' ''secret123'')"
proof -
  have "supabase demo_server = demo_store"
    by (simp add: demo_server_def)
  then show ?thesis
    by (simp add: unknown_email_def demo_parsed_login demo_store_def)
qed

theorem login_indistinguishable_witness:
  "wrong_password demo_server (login_request ''alice@example.com'' ''wrongpass'')
   \<and> unknown_email demo_server (login_request ''bob@example.com'' ''secret123'')
   \<and> fst (POST_login demo_server (login_request ''alice@example.com'' ''wrongpass''))
       = fst (POST_login demo_server (login_request ''bob@example.com'' ''secret123''))
   \<and> client_view (POST_login demo_server (login_request ''alice@example.com'' ''wrongpass''))
       = Some (401, JObj [(''error'', JStr ''Invalid credentials'')])"
  using login_indistinguishable [OF demo_wrong_password demo_unknown_email]
    demo_wrong_password demo_unknown_email
  by simp

section \<open>Project ids that are not numbers\<close>

lemma hex_not_ws: "is_hex c \<Longrightarrow> \<not> is_ws c"
  by (auto simp: is_hex_def is_ws_def is_digit_def)

lemma dropWhile_keeps: "xs \<noteq> [] \<Longrightarrow> \<not> P (hd xs) \<Longrightarrow> dropWhile P xs = xs"
  by (cases xs) auto

lemma trim_id:
  assumes "s \<noteq> []" and "\<not> is_ws (hd s)" and "\<not> is_ws (last s)"
  shows "trim s = s"
  using assms by (simp add: trim_def dropWhile_keeps hd_rev)

lemma no_hyphen_in_digits: "filter (\<lambda>c. c = CHR ''-'') (takeWhile is_digit s) = []"
  by (auto simp: filter_empty_conv is_digit_def dest!: set_takeWhileD)

lemma all_digits_no_hyphen: "list_all is_digit ds \<Longrightarrow> filter (\<lambda>c. c = CHR ''-'') ds = []"
  by (auto simp: filter_empty_conv list_all_iff is_digit_def)

lemma signed_integer_hyphens:
  "signed_integer r = Some e \<Longrightarrow> length (filter (\<lambda>c. c = CHR ''-'') r) \<le> 1"
  by (auto simp: signed_integer_def all_digits_no_hyphen split: list.splits if_splits)

lemma filter_after_digits:
  "filter (\<lambda>c. c = CHR ''-'') s = filter (\<lambda>c. c = CHR ''-'') (dropWhile is_digit s)"
proof -
  have "filter (\<lambda>c. c = CHR ''-'') (takeWhile is_digit s @ dropWhile is_digit s)
        = filter (\<lambda>c. c = CHR ''-'') (dropWhile is_digit s)"
    by (simp only: filter_append no_hyphen_in_digits append_Nil)
  then show ?thesis by simp
qed

lemma unsigned_decimal_hyphens:
  assumes "unsigned_decimal s = Some m"
  shows "length (filter (\<lambda>c. c = CHR ''-'') s) \<le> 1"
proof (cases "dropWhile is_digit s")
  case Nil
  show ?thesis using filter_after_digits [of s] unfolding Nil by simp
next
  case (Cons c r)
  show ?thesis
  proof (cases "c = CHR ''.''")
    case True
    have s: "filter (\<lambda>c. c = CHR ''-'') s = filter (\<lambda>c. c = CHR ''-'') (dropWhile is_digit r)"
      using filter_after_digits [of s] filter_after_digits [of r] Cons True by simp
    show ?thesis
    proof (cases "dropWhile is_digit r")
      case Nil
      show ?thesis using s unfolding Nil by simp
    next
      case (Cons c' r')
      with assms \<open>dropWhile is_digit s = c # r\<close> True
      obtain e where "signed_integer r' = Some e" "c' = CHR ''e'' \<or> c' = CHR ''E''"
        by (auto simp: unsigned_decimal_def Let_def split: if_splits)
      with s Cons signed_integer_hyphens [of r' e] show ?thesis by auto
    qed
  next
    case False
    with assms Cons
    obtain e where "signed_integer r = Some e" "c = CHR ''e'' \<or> c = CHR ''E''"
      by (auto simp: unsigned_decimal_def Let_def split: if_splits)
    with Cons signed_integer_hyphens [of r e] filter_after_digits [of s] show ?thesis by auto
  qed
qed

lemma two_occurrences:
  assumes "i < j" and "j < length s" and "s ! i = c" and "s ! j = c"
  shows "2 \<le> length (filter (\<lambda>x. x = c) s)"
proof -
  have "{i, j} \<subseteq> {k. k < length s \<and> s ! k = c}"
    using assms by auto
  then have "card {i, j} \<le> card {k. k < length s \<and> s ! k = c}"
    by (intro card_mono) auto
  moreover have "card {i, j} = 2"
    using assms(1) by simp
  ultimately show ?thesis
    by (simp add: length_filter_conv_card)
qed

lemma uuid_chars:
  assumes "is_uuid s"
  shows "length s = 36" and "is_hex (s ! 0)" and "is_hex (s ! 1)" and "is_hex (s ! 35)"
    and "s ! 8 = CHR ''-''" and "s ! 13 = CHR ''-''"
proof -
  have *: "i < 36 \<Longrightarrow> (if i \<in> set [8, 13, 18, 23] then s ! i = CHR ''-'' else is_hex (s ! i))" for i
    using assms by (simp add: is_uuid_def list_all_iff)
  show "length s = 36" using assms by (simp add: is_uuid_def)
  show "is_hex (s ! 0)" using * [of 0] by simp
  show "is_hex (s ! 1)" using * [of 1] by simp
  show "is_hex (s ! 35)" using * [of 35] by simp
  show "s ! 8 = CHR ''-''" using * [of 8] by simp
  show "s ! 13 = CHR ''-''" using * [of 13] by simp
qed

lemma not_hex:
  "\<not> is_hex (CHR ''x'')" "\<not> is_hex (CHR ''X'')" "\<not> is_hex (CHR ''o'')" "\<not> is_hex (CHR ''O'')"
  "\<not> is_hex (CHR ''+'')" "\<not> is_hex (CHR ''-'')"
  by (simp_all add: is_hex_def is_digit_def)

lemma uuid_is_not_a_number:
  assumes "is_uuid s"
  shows "Number s = NaN"
proof -
  note u = uuid_chars [OF assms]
  have ne: "s \<noteq> []" using u(1) by auto
  have hd: "hd s = s ! 0" using ne by (simp add: hd_conv_nth)
  have last: "last s = s ! 35" using ne u(1) by (simp add: last_conv_nth)
  have trim: "trim s = s"
    using ne hd last u(2,4) by (simp add: trim_id hex_not_ws)
  obtain a b r where s: "s = a # b # r"
    using u(1) by (metis length_0_conv length_Suc_conv numeral_eq_Suc pred_numeral_simps(2,3))
  have a: "is_hex a" and b: "is_hex b"
    using u(2,3) s by simp_all
  have hy: "CHR ''-'' \<in> set (drop 2 s)"
  proof -
    have "drop 2 s ! 6 = CHR ''-''" using u(1,5) by simp
    moreover have "6 < length (drop 2 s)" using u(1) by simp
    ultimately show ?thesis by (metis nth_mem)
  qed
  have bin: "radix_literal 2 (drop 2 s) = NaN"
    using hy not_hex(6) by (auto simp: radix_literal_def list_all_iff)
  have dec: "unsigned_decimal s = None"
  proof (rule ccontr)
    assume "unsigned_decimal s \<noteq> None"
    then obtain m where "unsigned_decimal s = Some m" by auto
    from unsigned_decimal_hyphens [OF this]
      two_occurrences [of 8 13 s "CHR ''-''"] u(1,5,6)
    show False by simp
  qed
  have inf: "s \<noteq> ''Infinity''" using u(1) by auto
  have pre: "take 2 s = [a, b]" using s by simp
  have ab: "b \<noteq> CHR ''x''" "b \<noteq> CHR ''X''" "b \<noteq> CHR ''o''" "b \<noteq> CHR ''O''"
    "a \<noteq> CHR ''+''" "a \<noteq> CHR ''-''"
    using a b not_hex by auto
  have sign: "(case s of [] \<Rightarrow> (False, [])
     | c # r \<Rightarrow> if c = CHR ''+'' then (False, r) else if c = CHR ''-'' then (True, r) else (False, s))
     = (False, s)"
    using s ab by simp
  show ?thesis
    unfolding Number_def trim Let_def sign
    using ne bin dec inf pre ab by simp
qed

text \<open>
  C10 (invalid project id). For an authenticated GET, PUT or DELETE on a project whose path
  parameter converts to NaN, which every string of UUID form does, the handler answers 400
  with the error \<open>Invalid project id\<close>, and its trace holds the gate call alone: no
  datastore query is made.
\<close>

theorem invalid_project_id_is_rejected:
  assumes "requireAuth S request = Inr u"
    and "isNaN (Number params_id) \<or> is_uuid params_id"
  shows "GET_project S request params_id = (Inr invalid_project_id, [Gate True])
       \<and> PUT_project S request params_id = (Inr invalid_project_id, [Gate True])
       \<and> DELETE_project S request params_id = (Inr invalid_project_id, [Gate True])
       \<and> http_status invalid_project_id = 400
       \<and> body invalid_project_id = JObj [(''error'', JStr ''Invalid project id'')]"
proof -
  from assms(2) have "isNaN (Number params_id)"
    by (auto simp: isNaN_def uuid_is_not_a_number)
  then show ?thesis
    by (simp add: GET_project_def PUT_project_def DELETE_project_def gate_open [OF assms(1)]
        ret_def invalid_project_id_def NextResponse_json_def error_body_def)
qed

lemma demo_uuid: "is_uuid ''7d9f0c1e-5b2a-4c3d-8e9f-0a1b2c3d4e5f''"
  by (simp add: is_uuid_def is_hex_def is_digit_def upt_rec)

lemma abc_NaN: "isNaN (Number ''abc'')"
  by (simp add: isNaN_def Number_def trim_def is_ws_def unsigned_decimal_def is_digit_def)

theorem invalid_project_id_is_rejected_witness:
  "requireAuth demo_server signed_in_request = Inr (decoded demo_claim 5000)
   \<and> is_uuid ''7d9f0c1e-5b2a-4c3d-8e9f-0a1b2c3d4e5f''
   \<and> isNaN (Number ''abc'')
   \<and> GET_project demo_server signed_in_request ''7d9f0c1e-5b2a-4c3d-8e9f-0a1b2c3d4e5f''
       = (Inr invalid_project_id, [Gate True])
   \<and> DELETE_project demo_server signed_in_request ''abc'' = (Inr invalid_project_id, [Gate True])"
  using invalid_project_id_is_rejected [OF signed_in_requireAuth,
      of "''7d9f0c1e-5b2a-4c3d-8e9f-0a1b2c3d4e5f''"]
    invalid_project_id_is_rejected [OF signed_in_requireAuth, of "''abc''"]
    signed_in_requireAuth demo_uuid abc_NaN
  by simp

end
